theory Spec2Isabelle
  imports Main "HOL-Library.AList"
begin

section \<open>Values\<close>

text \<open>
  The client works on decoded JSON (dictionaries with string keys, lists, strings,
  integers, booleans, \<open>None\<close>) in which \<open>NotionBlock\<close> instances may be nested:
  \<open>_get_all_children\<close> stores a list of \<open>NotionBlock\<close> under \<open>content["children"]\<close>.
  A dictionary is an association list in insertion order; \<open>AList.update\<close> is Python's
  \<open>d[k] = v\<close> (an existing key keeps its position, a new key goes last) and \<open>map_of\<close>
  is the lookup. A Python \<open>str\<close> is the list of its UTF-8 bytes. JSON floats are not
  modelled. A value decoded from a response holds no \<open>NotionBlock\<close>; the type does not
  exclude one there, and the JSON encoding of a request payload, which fails on a
  \<open>NotionBlock\<close>, is not modelled.
\<close>

datatype NotionPagePropertyType =
    SELECT | PEOPLE | RICH_TEXT | RELATION | LAST_EDITED_TIME | TITLE | OTHER
  | CREATED_TIME | CREATED_BY | DATE | FILES | MULTI_SELECT

datatype NotionBlockType =
    PARAGRAPH | HEADING_3 | HEADING_2 | HEADING_1 | BULLETED_LIST_ITEM | CHILD_DATABASE
  | DIVIDER | OTHER_BLOCK | COLUMN_LIST | TABLE | TABLE_ROW

datatype pyval =
    PNone
  | PBool bool
  | PInt int
  | PStr string
  | PList "pyval list"
  | PDict "(string \<times> pyval) list"
  | PBlock NotionBlock
and NotionBlock =
    NotionBlock (b_object: pyval) (b_id: pyval) (b_type_name: string)
                (b_type: NotionBlockType) (b_content: pyval) (b_has_children: pyval)

record NotionPageProperty =
  p_name :: string
  p_type_name :: string
  p_type :: NotionPagePropertyType
  p_content :: pyval
  p_children :: "pyval list"

datatype bad_request_class =
  BadRequest | BadPayload | ExceededRateLimit | Unauthorized | ServerSide

text \<open>
  \<open>BadRequestException cls message status_code\<close> is the family of
  \<open>libraries/sso_core/exceptions.py\<close>: the base class and its four subclasses. The other
  constructors are the built-in exceptions the modelled code can raise.
\<close>

datatype exn =
    BadRequestException (exn_class: bad_request_class) (message: string) (status: int)
  | KeyError pyval
  | IndexError
  | TypeError
  | AttributeError
  | ValueError string
  | JSONDecodeError
  | ConnectionError
  | StopIteration

section \<open>Python primitives used by the client\<close>

definition truthy :: "pyval \<Rightarrow> bool" where
  "truthy v = (case v of
       PNone \<Rightarrow> False
     | PBool b \<Rightarrow> b
     | PInt i \<Rightarrow> i \<noteq> 0
     | PStr s \<Rightarrow> s \<noteq> []
     | PList xs \<Rightarrow> xs \<noteq> []
     | PDict d \<Rightarrow> d \<noteq> []
     | PBlock b \<Rightarrow> True)"

text \<open>
  The characters of a \<open>str\<close>: in UTF-8 a character is a byte that is not a continuation
  byte (\<open>10xxxxxx\<close>), followed by its continuation bytes. Indexing and iterating a
  \<open>str\<close> go by character.
\<close>

definition continuation :: "char \<Rightarrow> bool" where
  "continuation c = (128 \<le> (of_char c :: nat) \<and> (of_char c :: nat) < 192)"

function characters :: "string \<Rightarrow> string list" where
  "characters [] = []"
| "characters (c # cs) =
     (c # takeWhile continuation cs) # characters (dropWhile continuation cs)"
  by pat_completeness auto
termination
  by (relation "measure length") (auto simp: length_dropWhile_le less_Suc_eq_le)

text \<open>\<open>v[k]\<close> for a string key \<open>k\<close>: only a dictionary can be subscripted by a string.\<close>

definition getitem :: "pyval \<Rightarrow> string \<Rightarrow> exn + pyval" where
  "getitem v k = (case v of
       PDict d \<Rightarrow> (case map_of d k of None \<Rightarrow> Inl (KeyError (PStr k)) | Some x \<Rightarrow> Inr x)
     | _ \<Rightarrow> Inl TypeError)"

text \<open>\<open>v[0]\<close>: the first element of a list or string, a key lookup in a dictionary.\<close>

definition getitem0 :: "pyval \<Rightarrow> exn + pyval" where
  "getitem0 v = (case v of
       PList xs \<Rightarrow> (case xs of [] \<Rightarrow> Inl IndexError | x # _ \<Rightarrow> Inr x)
     | PStr s \<Rightarrow> (case characters s of [] \<Rightarrow> Inl IndexError | c # _ \<Rightarrow> Inr (PStr c))
     | PDict d \<Rightarrow> Inl (KeyError (PInt 0))
     | _ \<Rightarrow> Inl TypeError)"

text \<open>\<open>v.get(k)\<close>: only dictionaries have the method.\<close>

definition get_method :: "pyval \<Rightarrow> string \<Rightarrow> exn + pyval" where
  "get_method v k = (case v of
       PDict d \<Rightarrow> (case map_of d k of None \<Rightarrow> Inr PNone | Some x \<Rightarrow> Inr x)
     | _ \<Rightarrow> Inl AttributeError)"

text \<open>\<open>v[k] = x\<close> for a string key \<open>k\<close>; the updated container is returned.\<close>

definition setitem :: "pyval \<Rightarrow> string \<Rightarrow> pyval \<Rightarrow> exn + pyval" where
  "setitem v k x = (case v of
       PDict d \<Rightarrow> Inr (PDict (AList.update k x d))
     | _ \<Rightarrow> Inl TypeError)"

text \<open>
  \<open>for x in v\<close>: the elements of a list, the characters of a string, the keys of a
  dictionary; anything else is not iterable.
\<close>

definition iterate :: "pyval \<Rightarrow> exn + pyval list" where
  "iterate v = (case v of
       PList xs \<Rightarrow> Inr xs
     | PStr s \<Rightarrow> Inr (map PStr (characters s))
     | PDict d \<Rightarrow> Inr (map (\<lambda>p. PStr (fst p)) d)
     | _ \<Rightarrow> Inl TypeError)"

text \<open>
  \<open>str.lower()\<close> on the ASCII letters. Python also lowers non-ASCII letters, but none of
  them lowers to a string of the ASCII letters compared against below, so the
  classification is the same.
\<close>

definition lower_char :: "char \<Rightarrow> char" where
  "lower_char c = (let n = of_char c :: nat in if 65 \<le> n \<and> n \<le> 90 then char_of (n + 32) else c)"

definition lower :: "string \<Rightarrow> string" where
  "lower s = map lower_char s"

section \<open>models.py\<close>

definition determine_property_type :: "string \<Rightarrow> NotionPagePropertyType" where
  "determine_property_type type_name =
     (if lower type_name = ''select'' then SELECT
      else if lower type_name = ''people'' then PEOPLE
      else if lower type_name = ''rich_text'' then RICH_TEXT
      else if lower type_name = ''relation'' then RELATION
      else if lower type_name = ''last_edited_time'' then LAST_EDITED_TIME
      else if lower type_name = ''title'' then TITLE
      else if lower type_name = ''created_time'' then CREATED_TIME
      else if lower type_name = ''created_by'' then CREATED_BY
      else if lower type_name = ''date'' then DATE
      else if lower type_name = ''files'' then FILES
      else if lower type_name = ''multi_select'' then MULTI_SELECT
      else OTHER)"

definition determine_block_type :: "string \<Rightarrow> NotionBlockType" where
  "determine_block_type type_name =
     (let type_name = lower type_name in
      if type_name = ''paragraph'' then PARAGRAPH
      else if type_name = ''heading_3'' then HEADING_3
      else if type_name = ''heading_2'' then HEADING_2
      else if type_name = ''heading_1'' then HEADING_1
      else if type_name = ''bulleted_list_item'' then BULLETED_LIST_ITEM
      else if type_name = ''child_database'' then CHILD_DATABASE
      else if type_name = ''divider'' then DIVIDER
      else if type_name = ''column_list'' then COLUMN_LIST
      else if type_name = ''table'' then TABLE
      else if type_name = ''table_row'' then TABLE_ROW
      else OTHER_BLOCK)"

text \<open>
  \<open>NotionPageProperty.__init__\<close>: reads \<open>"type"\<close>, classifies it (\<open>.lower()\<close> exists on
  strings only), then reads the payload stored under the type name.
\<close>

definition NotionPageProperty_init :: "string \<Rightarrow> pyval \<Rightarrow> exn + NotionPageProperty" where
  "NotionPageProperty_init name property_dict =
     (case getitem property_dict ''type'' of
        Inl e \<Rightarrow> Inl e
      | Inr t \<Rightarrow>
          (case t of
             PStr type_name \<Rightarrow>
               (case getitem property_dict type_name of
                  Inl e \<Rightarrow> Inl e
                | Inr c \<Rightarrow> Inr \<lparr>p_name = name, p_type_name = type_name,
                               p_type = determine_property_type type_name,
                               p_content = c, p_children = []\<rparr>)
           | _ \<Rightarrow> Inl AttributeError))"

text \<open>\<open>NotionPageProperty.to_dict\<close>: the dictionary display, a later equal key wins.\<close>

definition property_to_dict :: "NotionPageProperty \<Rightarrow> pyval" where
  "property_to_dict p =
     PDict (AList.update (p_type_name p) (p_content p)
             (AList.update ''type'' (PStr (p_type_name p)) []))"

text \<open>
  \<open>NotionBlock.__init__\<close>, in the order of its statements: \<open>"object"\<close>, \<open>"id"\<close>,
  \<open>"type"\<close>, the classification, the payload, \<open>"has_children"\<close>.
\<close>

definition NotionBlock_init :: "pyval \<Rightarrow> exn + NotionBlock" where
  "NotionBlock_init block_dict =
     (case getitem block_dict ''object'' of
        Inl e \<Rightarrow> Inl e
      | Inr obj \<Rightarrow>
     (case getitem block_dict ''id'' of
        Inl e \<Rightarrow> Inl e
      | Inr ident \<Rightarrow>
     (case getitem block_dict ''type'' of
        Inl e \<Rightarrow> Inl e
      | Inr t \<Rightarrow>
     (case t of
        PStr type_name \<Rightarrow>
          (case getitem block_dict type_name of
             Inl e \<Rightarrow> Inl e
           | Inr c \<Rightarrow>
          (case getitem block_dict ''has_children'' of
             Inl e \<Rightarrow> Inl e
           | Inr hc \<Rightarrow>
               Inr (NotionBlock obj ident type_name (determine_block_type type_name) c hc)))
      | _ \<Rightarrow> Inl AttributeError))))"

text \<open>\<open>NotionBlock.to_dict\<close>.\<close>

definition block_to_dict :: "NotionBlock \<Rightarrow> pyval" where
  "block_to_dict b =
     PDict (AList.update (b_type_name b) (b_content b)
             (AList.update ''type'' (PStr (b_type_name b))
               (AList.update ''object'' (b_object b) [])))"

section \<open>notion_api.py: conversion of a block to its wire record\<close>

text \<open>
  \<open>_convert_block_to_json\<close> (the leading underscore of the method names is dropped).
  The method mutates \<open>block.content\<close> in place, so the model returns the record together
  with the block as the call leaves it.

  \<^item> \<open>convert_children xs children\<close> is the inner \<open>for child in block.content[key]\<close>
    loop over a list: it returns the accumulator \<open>children\<close> after the loop and the
    exception that ended it, if any.
  \<^item> \<open>convert_key d key children\<close> is one round of \<open>for key in ["children", "cells"]\<close>
    under \<open>with suppress(KeyError)\<close>: it returns the exception that escapes, whether
    \<open>block.content[key] = children\<close> was executed, and the accumulator. The characters
    of a string and the keys of a dictionary are never \<open>NotionBlock\<close> instances and are
    appended as they are.
  \<^item> The accumulator \<open>children = []\<close> is created once, before the loop over the keys,
    and \<open>block.content[key] = children\<close> stores a reference to it: every key that was
    assigned holds the accumulator in its final state.

  When an exception escapes, the partially mutated block is not returned; no modelled
  caller catches such an exception and uses the block afterwards.
\<close>

function convert_block_to_json :: "NotionBlock \<Rightarrow> exn + pyval \<times> NotionBlock"
  and convert_key ::
    "(string \<times> pyval) list \<Rightarrow> string \<Rightarrow> pyval list \<Rightarrow> exn option \<times> bool \<times> pyval list"
  and convert_children :: "pyval list \<Rightarrow> pyval list \<Rightarrow> exn option \<times> pyval list"
where
  "convert_block_to_json block =
     (case b_content block of
        PDict d \<Rightarrow>
          (if truthy (case map_of d ''children'' of None \<Rightarrow> PNone | Some x \<Rightarrow> x) then
             (case convert_key d ''children'' [] of (e1, a1, c1) \<Rightarrow>
                (case e1 of
                   Some e \<Rightarrow> Inl e
                 | None \<Rightarrow>
                     (case convert_key d ''cells'' c1 of (e2, a2, c2) \<Rightarrow>
                        (case e2 of
                           Some e \<Rightarrow> Inl e
                         | None \<Rightarrow>
                             (let d1 = (if a1 then AList.update ''children'' (PList c2) d else d);
                                  d2 = (if a2 then AList.update ''cells'' (PList c2) d1 else d1);
                                  block' = NotionBlock (b_object block) (b_id block)
                                             (b_type_name block) (b_type block) (PDict d2)
                                             (b_has_children block)
                              in Inr (block_to_dict block', block'))))))
           else Inr (block_to_dict block, block))
      | _ \<Rightarrow> Inl AttributeError)"
| "convert_key d key children =
     (case map_of d key of
        None \<Rightarrow> (None, False, children)
      | Some v \<Rightarrow>
          (case v of
             PList xs \<Rightarrow>
               (case convert_children xs children of
                  (None, cs) \<Rightarrow> (None, True, cs)
                | (Some e, cs) \<Rightarrow>
                    (case e of KeyError k \<Rightarrow> (None, False, cs) | _ \<Rightarrow> (Some e, False, cs)))
           | PStr s \<Rightarrow> (None, True, children @ map PStr (characters s))
           | PDict kv \<Rightarrow> (None, True, children @ map (\<lambda>p. PStr (fst p)) kv)
           | _ \<Rightarrow> (Some TypeError, False, children)))"
| "convert_children [] children = (None, children)"
| "convert_children (child # rest) children =
     (case child of
        PBlock b \<Rightarrow>
          (case convert_block_to_json b of
             Inl e \<Rightarrow> (Some e, children)
           | Inr r \<Rightarrow> convert_children rest (children @ [fst r]))
      | _ \<Rightarrow> convert_children rest (children @ [child]))"
  by pat_completeness auto
termination
  apply (relation "measure (\<lambda>x. case x of
            Inl b \<Rightarrow> size b
          | Inr (Inl (d, k, c)) \<Rightarrow> size (PDict d)
          | Inr (Inr (xs, c)) \<Rightarrow> size (PList xs))")
  subgoal by simp
  subgoal for block d by (cases block) simp
  subgoal for block d by (cases block) simp
  subgoal for d key children v xs
  proof -
    have "map_of d key = Some v \<Longrightarrow> size v < Suc (size_list (size_prod (\<lambda>_. 0) size) d)"
      by (induction d) (auto split: if_splits)
    then show "map_of d key = Some v \<Longrightarrow> v = PList xs \<Longrightarrow>
               (Inr (Inr (xs, children)), Inr (Inl (d, key, children)))
               \<in> measure (\<lambda>x. case x of
                     Inl b \<Rightarrow> size b
                   | Inr (Inl (d, k, c)) \<Rightarrow> size (PDict d)
                   | Inr (Inr (xs, c)) \<Rightarrow> size (PList xs))"
      by simp
  qed
  subgoal by simp
  subgoal by simp
  subgoal by simp
  subgoal by simp
  subgoal by simp
  subgoal by simp
  subgoal by simp
  subgoal by simp
  done

section \<open>The network, the console and the clock\<close>

text \<open>
  A request is its HTTP method, the endpoint its URL names and the JSON payload. The id
  interpolated into the URL is kept as a value, not formatted into a string. The headers
  are the same for every request of a client and are left out.
\<close>

datatype endpoint =
    BlockChildren pyval
  | Block pyval
  | DatabaseQuery pyval

record request =
  http_method :: string
  endpoint :: endpoint
  payload :: "pyval option"

text \<open>\<open>json\<close> is the decoded body; \<open>None\<close> when the body is not JSON.\<close>

record response =
  status_code :: int
  text_of :: string
  json :: "pyval option"

datatype event = Request request | Print string | Sleep nat

text \<open>
  The world is the state of the remote service and the trace of what the client did:
  requests sent, lines printed, seconds slept, in order. The service is a parameter
  \<open>net\<close>: it answers a request with a response, or the connection fails.
\<close>

record 'w world =
  service :: 'w
  trace :: "event list"

type_synonym 'w network = "request \<Rightarrow> 'w \<Rightarrow> (exn + response) \<times> 'w"

definition requests_request ::
  "'w network \<Rightarrow> request \<Rightarrow> 'w world \<Rightarrow> (exn + response) \<times> 'w world" where
  "requests_request net req w =
     (case net req (service w) of
        (r, s) \<Rightarrow> (r, w\<lparr>service := s, trace := trace w @ [Request req]\<rparr>))"

definition print :: "string \<Rightarrow> 'w world \<Rightarrow> 'w world" where
  "print line w = w\<lparr>trace := trace w @ [Print line]\<rparr>"

definition sleep :: "nat \<Rightarrow> 'w world \<Rightarrow> 'w world" where
  "sleep seconds w = w\<lparr>trace := trace w @ [Sleep seconds]\<rparr>"

definition response_json :: "response \<Rightarrow> exn + pyval" where
  "response_json response =
     (case json response of None \<Rightarrow> Inl JSONDecodeError | Some v \<Rightarrow> Inr v)"

text \<open>\<open>str\<close> of an integer, for the f-string of the retry warning.\<close>

definition digit_char :: "nat \<Rightarrow> char" where
  "digit_char n = ''0123456789'' ! n"

function str_nat :: "nat \<Rightarrow> string" where
  "str_nat n =
     (if n < 10 then [digit_char n] else str_nat (n div 10) @ [digit_char (n mod 10)])"
  by pat_completeness auto
termination
  by (relation "measure id") auto

declare str_nat.simps [simp del]

definition str_int :: "int \<Rightarrow> string" where
  "str_int i = (if i < 0 then CHR ''-'' # str_nat (nat (- i)) else str_nat (nat i))"

section \<open>common.py: the retry wrapper\<close>

text \<open>
  \<open>retry_on_bad_response\<close>. A wrapped function takes its arguments \<open>args\<close> and the
  world; it returns its result or exception, the arguments as it leaves them (a
  \<open>NotionBlock\<close> argument is mutated by \<open>_convert_block_to_json\<close> and the next attempt
  receives the same object) and the world. \<open>retry_loop n\<close> is the \<open>for _ in range(n)\<close>
  loop followed by \<open>raise error\<close>; raising \<open>None\<close> is a \<open>TypeError\<close>.
  \<open>is_bad_request\<close> is the test of \<open>except BadRequestException\<close>, which the subclasses
  pass as well.
\<close>

definition is_bad_request :: "exn \<Rightarrow> bool" where
  "is_bad_request e = (case e of BadRequestException cls m sc \<Rightarrow> True | _ \<Rightarrow> False)"

definition bad_response_warning :: "exn \<Rightarrow> string" where
  "bad_response_warning error =
     ''Received bad response ('' @ str_int (status error) @ ''): ['' @ message error
       @ '']. Retrying in 30 seconds...''"

fun retry_loop ::
  "nat \<Rightarrow> ('x \<Rightarrow> 'w world \<Rightarrow> (exn + 'a) \<times> 'x \<times> 'w world) \<Rightarrow> exn option \<Rightarrow>
   'x \<Rightarrow> 'w world \<Rightarrow> (exn + 'a) \<times> 'x \<times> 'w world" where
  "retry_loop 0 func error args w =
     (case error of None \<Rightarrow> (Inl TypeError, args, w) | Some e \<Rightarrow> (Inl e, args, w))"
| "retry_loop (Suc n) func error args w =
     (case func args w of
        (Inr v, args1, w1) \<Rightarrow> (Inr v, args1, w1)
      | (Inl e, args1, w1) \<Rightarrow>
          (if is_bad_request e then
             retry_loop n func (Some e) args1 (sleep 30 (print (bad_response_warning e) w1))
           else (Inl e, args1, w1)))"

definition retry_on_bad_response ::
  "('x \<Rightarrow> 'w world \<Rightarrow> (exn + 'a) \<times> 'x \<times> 'w world) \<Rightarrow>
   'x \<Rightarrow> 'w world \<Rightarrow> (exn + 'a) \<times> 'x \<times> 'w world" where
  "retry_on_bad_response func = retry_loop 3 func None"

section \<open>notion_api.py: requests\<close>

definition check_response :: "response \<Rightarrow> exn + unit" where
  "check_response response =
     (if status_code response = 429 then
        Inl (BadRequestException ExceededRateLimit
              (''Notion API exceeded rate limit: '' @ text_of response) (status_code response))
      else if status_code response = 400 then
        Inl (BadRequestException BadPayload
              (''Notion API determined bad payload. Possibly exceeded size limit: ''
                 @ text_of response) (status_code response))
      else if status_code response \<in> set [401, 403] then
        Inl (BadRequestException Unauthorized
              (''Notion API sent unauthorized: '' @ text_of response) (status_code response))
      else if status_code response \<ge> 500 then
        Inl (BadRequestException ServerSide
              (''Notion API server error: '' @ text_of response) (status_code response))
      else if status_code response \<noteq> 200 then
        Inl (BadRequestException BadRequest
              (''Notion API returned error: '' @ text_of response) (status_code response))
      else Inr ())"

text \<open>\<open>_get_block_children\<close>: the decorated method is the body under the retry wrapper.\<close>

definition get_block_children_body ::
  "'w network \<Rightarrow> pyval \<Rightarrow> 'w world \<Rightarrow> (exn + pyval) \<times> pyval \<times> 'w world" where
  "get_block_children_body net parent_id w =
     (case requests_request net
             \<lparr>http_method = ''GET'', endpoint = BlockChildren parent_id, payload = None\<rparr> w of
        (Inl e, w1) \<Rightarrow> (Inl e, parent_id, w1)
      | (Inr response, w1) \<Rightarrow>
          (case check_response response of
             Inl e \<Rightarrow> (Inl e, parent_id, w1)
           | Inr u \<Rightarrow>
               (case response_json response of
                  Inl e \<Rightarrow> (Inl e, parent_id, w1)
                | Inr j \<Rightarrow>
                    (case getitem j ''results'' of
                       Inl e \<Rightarrow> (Inl e, parent_id, w1)
                     | Inr results \<Rightarrow> (Inr results, parent_id, w1)))))"

definition get_block_children ::
  "'w network \<Rightarrow> pyval \<Rightarrow> 'w world \<Rightarrow> (exn + pyval) \<times> pyval \<times> 'w world" where
  "get_block_children net = retry_on_bad_response (get_block_children_body net)"

text \<open>\<open>_update_block\<close>: the arguments are \<open>(block_id, block)\<close>.\<close>

definition update_block_body ::
  "'w network \<Rightarrow> pyval \<times> NotionBlock \<Rightarrow> 'w world \<Rightarrow>
   (exn + unit) \<times> (pyval \<times> NotionBlock) \<times> 'w world" where
  "update_block_body net args w =
     (case args of (block_id, block) \<Rightarrow>
        (case convert_block_to_json block of
           Inl e \<Rightarrow> (Inl e, (block_id, block), w)
         | Inr (body, block1) \<Rightarrow>
             (case requests_request net
                     \<lparr>http_method = ''PATCH'', endpoint = Block block_id, payload = Some body\<rparr> w of
                (Inl e, w1) \<Rightarrow> (Inl e, (block_id, block1), w1)
              | (Inr response, w1) \<Rightarrow>
                  (case check_response response of
                     Inl e \<Rightarrow> (Inl e, (block_id, block1), w1)
                   | Inr u \<Rightarrow> (Inr (), (block_id, block1), w1)))))"

definition update_block ::
  "'w network \<Rightarrow> pyval \<times> NotionBlock \<Rightarrow> 'w world \<Rightarrow>
   (exn + unit) \<times> (pyval \<times> NotionBlock) \<times> 'w world" where
  "update_block net = retry_on_bad_response (update_block_body net)"

section \<open>notion_api.py: attaching a link to a bulleted list item\<close>

text \<open>The comprehension \<open>[NotionBlock(child) for child in ...]\<close>.\<close>

fun construct_blocks :: "pyval list \<Rightarrow> exn + NotionBlock list" where
  "construct_blocks [] = Inr []"
| "construct_blocks (child # rest) =
     (case NotionBlock_init child of
        Inl e \<Rightarrow> Inl e
      | Inr b \<Rightarrow>
          (case construct_blocks rest of
             Inl e \<Rightarrow> Inl e
           | Inr bs \<Rightarrow> Inr (b # bs)))"

text \<open>The statement \<open>item["text"]["link"] = {"url": url}\<close>; the updated item is returned.\<close>

definition set_link :: "pyval \<Rightarrow> string \<Rightarrow> exn + pyval" where
  "set_link item url =
     (case getitem item ''text'' of
        Inl e \<Rightarrow> Inl e
      | Inr t \<Rightarrow>
          (case setitem t ''link'' (PDict [(''url'', PStr url)]) of
             Inl e \<Rightarrow> Inl e
           | Inr t1 \<Rightarrow> setitem item ''text'' t1))"

text \<open>
  The inner loop \<open>for item in block.content["text"]\<close>. \<open>deepcopy(block)\<close> is taken
  before the link is written into \<open>item\<close>, so \<open>new_block\<close> is the block as it was
  fetched; \<open>raise StopIteration\<close> is the result \<open>Inl StopIteration\<close>.
\<close>

fun scan_items ::
  "'w network \<Rightarrow> string \<Rightarrow> string \<Rightarrow> bool \<Rightarrow> NotionBlock \<Rightarrow> pyval list \<Rightarrow> 'w world \<Rightarrow>
   (exn + unit) \<times> 'w world" where
  "scan_items net text_to_match url replace_only_matched_text block [] w = (Inr (), w)"
| "scan_items net text_to_match url replace_only_matched_text block (item # rest) w =
     (case get_method item ''plain_text'' of
        Inl e \<Rightarrow> (Inl e, w)
      | Inr v \<Rightarrow>
          (if v = PStr text_to_match then
             (let new_block = block in
              case set_link item url of
                Inl e \<Rightarrow> (Inl e, w)
              | Inr item1 \<Rightarrow>
                  (case (if \<not> replace_only_matched_text then
                           (case setitem (b_content new_block) ''text'' (PList [item1]) of
                              Inl e \<Rightarrow> Inl e
                            | Inr c \<Rightarrow> Inr (NotionBlock (b_object new_block) (b_id new_block)
                                              (b_type_name new_block) (b_type new_block) c
                                              (b_has_children new_block)))
                         else Inr new_block) of
                     Inl e \<Rightarrow> (Inl e, w)
                   | Inr new_block1 \<Rightarrow>
                       (case update_block net (b_id new_block1, new_block1) w of
                          (Inl e, a, w1) \<Rightarrow> (Inl e, w1)
                        | (Inr u, a, w1) \<Rightarrow> (Inl StopIteration, w1))))
           else scan_items net text_to_match url replace_only_matched_text block rest w))"

text \<open>The outer loop \<open>for block in bullet_list_blocks\<close>.\<close>

fun scan_blocks ::
  "'w network \<Rightarrow> string \<Rightarrow> string \<Rightarrow> bool \<Rightarrow> NotionBlock list \<Rightarrow> 'w world \<Rightarrow>
   (exn + unit) \<times> 'w world" where
  "scan_blocks net text_to_match url replace_only_matched_text [] w = (Inr (), w)"
| "scan_blocks net text_to_match url replace_only_matched_text (block # rest) w =
     (case getitem (b_content block) ''text'' of
        Inl e \<Rightarrow> (Inl e, w)
      | Inr t \<Rightarrow>
          (case iterate t of
             Inl e \<Rightarrow> (Inl e, w)
           | Inr items \<Rightarrow>
               (case scan_items net text_to_match url replace_only_matched_text block items w of
                  (Inl e, w1) \<Rightarrow> (Inl e, w1)
                | (Inr u, w1) \<Rightarrow>
                    scan_blocks net text_to_match url replace_only_matched_text rest w1)))"

text \<open>
  \<open>_set_bulleted_list_item_link\<close>: the loops, then \<open>raise ValueError\<close>, all under
  \<open>with suppress(StopIteration)\<close>.
\<close>

definition set_bulleted_list_item_link ::
  "'w network \<Rightarrow> string \<Rightarrow> string \<Rightarrow> string \<Rightarrow> bool \<Rightarrow> 'w world \<Rightarrow> (exn + unit) \<times> 'w world" where
  "set_bulleted_list_item_link net text_to_match page_id url replace_only_matched_text w =
     (case get_block_children net (PStr page_id) w of
        (Inl e, a, w1) \<Rightarrow> (Inl e, w1)
      | (Inr results, a, w1) \<Rightarrow>
          (case iterate results of
             Inl e \<Rightarrow> (Inl e, w1)
           | Inr children \<Rightarrow>
               (case construct_blocks children of
                  Inl e \<Rightarrow> (Inl e, w1)
                | Inr page_children \<Rightarrow>
                    (let bullet_list_blocks =
                           filter (\<lambda>child. b_type child = BULLETED_LIST_ITEM) page_children
                     in case scan_blocks net text_to_match url replace_only_matched_text
                               bullet_list_blocks w1 of
                          (Inl e, w2) \<Rightarrow> (if e = StopIteration then (Inr (), w2) else (Inl e, w2))
                        | (Inr u, w2) \<Rightarrow>
                            (Inl (ValueError (''Could not find '' @ text_to_match
                                              @ '' in bullet list'')), w2)))))"

section \<open>notion_api.py: all pages of a database\<close>

text \<open>
  A chain of subscripts \<open>v[k1][k2]...\<close>, each a string key or the index \<open>0\<close>, evaluated
  left to right; the first failure ends it.
\<close>

datatype subscript = Key string | Index0

fun subscripts :: "pyval \<Rightarrow> subscript list \<Rightarrow> exn + pyval" where
  "subscripts v [] = Inr v"
| "subscripts v (Key k # ks) =
     (case getitem v k of Inl e \<Rightarrow> Inl e | Inr x \<Rightarrow> subscripts x ks)"
| "subscripts v (Index0 # ks) =
     (case getitem0 v of Inl e \<Rightarrow> Inl e | Inr x \<Rightarrow> subscripts x ks)"

text \<open>The key of the first lookup: the byte order mark U+FEFF (the bytes EF BB BF in UTF-8), then \<open>Name\<close>.\<close>

definition bom_name :: string where
  "bom_name = [CHR 0xEF, CHR 0xBB, CHR 0xBF] @ ''Name''"

definition title_path :: "string \<Rightarrow> subscript list" where
  "title_path name =
     [Key ''properties'', Key name, Key ''title'', Index0, Key ''text'', Key ''content'']"

text \<open>The \<open>try\<close>/\<open>except KeyError\<close> of the loop body: only a \<open>KeyError\<close> is handled.\<close>

definition extract_title :: "pyval \<Rightarrow> exn + pyval" where
  "extract_title item =
     (case subscripts item (title_path bom_name) of
        Inr title \<Rightarrow> Inr title
      | Inl e \<Rightarrow>
          (case e of
             KeyError k \<Rightarrow> subscripts item (title_path ''Name'')
           | _ \<Rightarrow> Inl e))"

text \<open>
  \<open>pages\<close> is a dictionary keyed by the ids of the items, which are arbitrary decoded
  values: lists and dictionaries are unhashable, and \<open>True == 1\<close>, \<open>False == 0\<close> as keys.
  On a hit \<open>pages[id] = item\<close> keeps the key that is already stored.
\<close>

definition hashable :: "pyval \<Rightarrow> bool" where
  "hashable v = (case v of PList xs \<Rightarrow> False | PDict d \<Rightarrow> False | _ \<Rightarrow> True)"

definition key_eq :: "pyval \<Rightarrow> pyval \<Rightarrow> bool" where
  "key_eq a b = (case (a, b) of
       (PBool x, PInt i) \<Rightarrow> (if x then 1 else 0) = i
     | (PInt i, PBool x) \<Rightarrow> i = (if x then 1 else 0)
     | _ \<Rightarrow> a = b)"

fun dict_setitem ::
  "pyval \<Rightarrow> pyval \<Rightarrow> (pyval \<times> pyval) list \<Rightarrow> (pyval \<times> pyval) list" where
  "dict_setitem k v [] = [(k, v)]"
| "dict_setitem k v (p # ps) =
     (if key_eq (fst p) k then (fst p, v) # ps else p # dict_setitem k v ps)"

text \<open>The loop \<open>for item in results\<close>.\<close>

fun collect_pages ::
  "pyval list \<Rightarrow> (pyval \<times> pyval) list \<Rightarrow> exn + (pyval \<times> pyval) list" where
  "collect_pages [] pages = Inr pages"
| "collect_pages (item # rest) pages =
     (case getitem item ''object'' of
        Inl e \<Rightarrow> Inl e
      | Inr obj \<Rightarrow>
          (if obj \<noteq> PStr ''page'' then collect_pages rest pages
           else
             (case extract_title item of
                Inl e \<Rightarrow> Inl e
              | Inr title \<Rightarrow>
                  (case setitem item ''title'' title of
                     Inl e \<Rightarrow> Inl e
                   | Inr item1 \<Rightarrow>
                       (case getitem item1 ''id'' of
                          Inl e \<Rightarrow> Inl e
                        | Inr ident \<Rightarrow>
                            (if hashable ident
                             then collect_pages rest (dict_setitem ident item1 pages)
                             else Inl TypeError))))))"

text \<open>The payload of one query: \<open>start_cursor\<close> is added under \<open>if cursor:\<close>.\<close>

definition query_payload :: "pyval \<Rightarrow> pyval" where
  "query_payload cursor =
     PDict (if truthy cursor
            then AList.update ''start_cursor'' cursor [(''page_size'', PInt 100)]
            else [(''page_size'', PInt 100)])"

definition query_request :: "string \<Rightarrow> pyval \<Rightarrow> request" where
  "query_request database_id cursor =
     \<lparr>http_method = ''POST'', endpoint = DatabaseQuery (PStr database_id),
      payload = Some (query_payload cursor)\<rparr>"

text \<open>
  The \<open>while has_next\<close> loop of \<open>_get_database_pages\<close>, entered with \<open>has_next = True\<close>.
  Nothing bounds the number of rounds, so the loop is a partial function: \<open>None\<close> is a
  run that never returns.
\<close>

partial_function (option) database_pages_loop ::
  "'w network \<Rightarrow> string \<Rightarrow> (pyval \<times> pyval) list \<Rightarrow> pyval \<Rightarrow> 'w world \<Rightarrow>
   ((exn + (pyval \<times> pyval) list) \<times> 'w world) option" where
  "database_pages_loop net database_id pages cursor w =
     (case requests_request net (query_request database_id cursor) w of
        (Inl e, w1) \<Rightarrow> Some (Inl e, w1)
      | (Inr response, w1) \<Rightarrow>
          (case response_json response of
             Inl e \<Rightarrow> Some (Inl e, w1)
           | Inr response_data \<Rightarrow>
               (case getitem response_data ''results'' of
                  Inl e \<Rightarrow> Some (Inl e, w1)
                | Inr results \<Rightarrow>
                    (case iterate results of
                       Inl e \<Rightarrow> Some (Inl e, w1)
                     | Inr items \<Rightarrow>
                         (case collect_pages items pages of
                            Inl e \<Rightarrow> Some (Inl e, w1)
                          | Inr pages1 \<Rightarrow>
                              (case get_method response_data ''has_more'' of
                                 Inl e \<Rightarrow> Some (Inl e, w1)
                               | Inr has_next \<Rightarrow>
                                   (if truthy has_next then
                                      (case getitem response_data ''next_cursor'' of
                                         Inl e \<Rightarrow> Some (Inl e, w1)
                                       | Inr cursor1 \<Rightarrow>
                                           database_pages_loop net database_id pages1 cursor1 w1)
                                    else Some (Inr pages1, w1))))))))"

declare database_pages_loop.simps [code]

definition get_database_pages ::
  "'w network \<Rightarrow> string \<Rightarrow> 'w world \<Rightarrow> ((exn + (pyval \<times> pyval) list) \<times> 'w world) option" where
  "get_database_pages net database_id w = database_pages_loop net database_id [] PNone w"

text \<open>
  A mocked service: the queue of the answers still to give; each request takes the
  next one, whatever it asks, and an empty queue is a failed connection.
\<close>

fun scripted :: "response list network" where
  "scripted req [] = (Inl ConnectionError, [])"
| "scripted req (r # rs) = (Inr r, rs)"

section \<open>Vocabulary of the statements\<close>

text \<open>
  An attempt of a wrapped function is bad when it raised an exception of the
  \<open>BadRequestException\<close> family; \<open>warned r w\<close> is the world after the warning for the
  attempt's outcome \<open>r\<close> was printed and the 30 seconds were slept.
\<close>

definition bad_attempt :: "exn + 'a \<Rightarrow> bool" where
  "bad_attempt r = (case r of Inl e \<Rightarrow> is_bad_request e | Inr v \<Rightarrow> False)"

definition warned :: "exn + 'a \<Rightarrow> 'w world \<Rightarrow> 'w world" where
  "warned r w = (case r of
       Inl e \<Rightarrow> w\<lparr>trace := trace w @ [Print (bad_response_warning e), Sleep 30]\<rparr>
     | Inr v \<Rightarrow> w)"

text \<open>
  \<open>counted func\<close> is \<open>func\<close> with a counter of its calls kept beside its arguments, the
  way a mock counts them.
\<close>

definition counted ::
  "('x \<Rightarrow> 'w world \<Rightarrow> (exn + 'a) \<times> 'x \<times> 'w world) \<Rightarrow>
   nat \<times> 'x \<Rightarrow> 'w world \<Rightarrow> (exn + 'a) \<times> (nat \<times> 'x) \<times> 'w world" where
  "counted func na w =
     (case func (snd na) w of (r, a, w1) \<Rightarrow> (r, (Suc (fst na), a), w1))"

text \<open>Responses of a mocked service.\<close>

definition rate_limited :: response where
  "rate_limited = \<lparr>status_code = 429, text_of = ''slow down'', json = None\<rparr>"

definition children_ok :: response where
  "children_ok = \<lparr>status_code = 200, text_of = ''ok'',
                  json = Some (PDict [(''results'', PList [])])\<rparr>"

text \<open>Blocks for the conversion to the wire record.\<close>

definition paragraph_block :: NotionBlock where
  "paragraph_block = NotionBlock (PStr ''block'') (PStr ''c1'') ''paragraph'' PARAGRAPH
                       (PDict [(''rich_text'', PList [])]) (PBool False)"

definition paragraph_wire :: pyval where
  "paragraph_wire = PDict [(''object'', PStr ''block''), (''type'', PStr ''paragraph''),
                           (''paragraph'', PDict [(''rich_text'', PList [])])]"

definition cell :: pyval where
  "cell = PList [PDict [(''plain_text'', PStr ''a'')]]"

definition row_with_children :: NotionBlock where
  "row_with_children = NotionBlock (PStr ''block'') (PStr ''r1'') ''table_row'' TABLE_ROW
      (PDict [(''cells'', PList [cell]), (''children'', PList [PBlock paragraph_block])])
      (PBool True)"

definition row_cells_only :: NotionBlock where
  "row_cells_only = NotionBlock (PStr ''block'') (PStr ''r2'') ''table_row'' TABLE_ROW
      (PDict [(''cells'', PList [PBlock paragraph_block])]) (PBool False)"

definition row_content :: "pyval list \<Rightarrow> pyval list \<Rightarrow> pyval" where
  "row_content cells children = PDict [(''cells'', PList cells), (''children'', PList children)]"

definition row_block :: "pyval \<Rightarrow> NotionBlock" where
  "row_block c = NotionBlock (PStr ''block'') (PStr ''r3'') ''table_row'' TABLE_ROW c (PBool True)"

definition row_wire :: "pyval \<Rightarrow> pyval" where
  "row_wire c = PDict [(''object'', PStr ''block''), (''type'', PStr ''table_row''),
                       (''table_row'', c)]"

text \<open>A page with one bulleted list item of two runs, and the answers of its service.\<close>

definition run_see :: pyval where
  "run_see = PDict [(''plain_text'', PStr ''See ''),
                    (''text'', PDict [(''content'', PStr ''See ''), (''link'', PNone)])]"

definition run_click :: pyval where
  "run_click = PDict [(''plain_text'', PStr ''Click here''),
                      (''text'', PDict [(''content'', PStr ''Click here''), (''link'', PNone)])]"

definition bullet_record :: pyval where
  "bullet_record = PDict [(''object'', PStr ''block''), (''id'', PStr ''b1''),
      (''type'', PStr ''bulleted_list_item''),
      (''bulleted_list_item'', PDict [(''text'', PList [run_see, run_click])]),
      (''has_children'', PBool False)]"

definition children_of_page :: response where
  "children_of_page = \<lparr>status_code = 200, text_of = ''ok'',
                        json = Some (PDict [(''results'', PList [bullet_record])])\<rparr>"

definition updated :: response where
  "updated = \<lparr>status_code = 200, text_of = ''ok'', json = Some (PDict [])\<rparr>"

definition rate_limited_query :: response where
  "rate_limited_query = \<lparr>status_code = 429, text_of = ''rate limited'',
       json = Some (PDict [(''object'', PStr ''error''), (''status'', PInt 429),
                           (''code'', PStr ''rate_limited'')])\<rparr>"

definition server_error_query :: response where
  "server_error_query = \<lparr>status_code = 500, text_of = ''internal error'',
       json = Some (PDict [(''results'', PList []), (''has_more'', PBool False)])\<rparr>"

text \<open>
  The part of the title path below the property, and page records as the service
  returns them.
\<close>

definition title_of_property :: "pyval \<Rightarrow> exn + pyval" where
  "title_of_property v = subscripts v [Key ''title'', Index0, Key ''text'', Key ''content'']"

definition title_property :: "string \<Rightarrow> pyval" where
  "title_property t =
     PDict [(''id'', PStr ''title''), (''type'', PStr ''title''),
            (''title'', PList [PDict [(''type'', PStr ''text''),
                                      (''text'', PDict [(''content'', PStr t), (''link'', PNone)]),
                                      (''plain_text'', PStr t)]])]"

definition page_record :: "string \<Rightarrow> (string \<times> pyval) list \<Rightarrow> (string \<times> pyval) list" where
  "page_record i props = [(''object'', PStr ''page''), (''id'', PStr i), (''properties'', PDict props)]"

text \<open>
  The parts of an answer to a database query: its list of results, whether
  \<open>has_more\<close> is truthy, its \<open>next_cursor\<close>. A page with more to come has all three, with
  a truthy cursor; the last page has results and no truthy \<open>has_more\<close>.

  An item is sound when it is a dictionary with an \<open>"object"\<close> and, if that is \<open>"page"\<close>,
  a string \<open>"id"\<close> and a title that can be extracted. \<open>with_title\<close> is the item with the
  extracted title stored under \<open>"title"\<close>; \<open>add_page\<close> is what one round of the loop over
  the results does to \<open>pages\<close> for a sound item. \<open>first_query\<close> is the query without a
  cursor and \<open>next_query\<close> the query with \<open>start_cursor\<close>.
\<close>

definition results_of :: "response \<Rightarrow> pyval list option" where
  "results_of r = (case json r of
       Some (PDict j) \<Rightarrow> (case map_of j ''results'' of Some (PList xs) \<Rightarrow> Some xs | _ \<Rightarrow> None)
     | _ \<Rightarrow> None)"

definition has_more_of :: "response \<Rightarrow> bool" where
  "has_more_of r = (case json r of
       Some (PDict j) \<Rightarrow> (case map_of j ''has_more'' of Some v \<Rightarrow> truthy v | None \<Rightarrow> False)
     | _ \<Rightarrow> False)"

definition next_cursor_of :: "response \<Rightarrow> pyval option" where
  "next_cursor_of r = (case json r of Some (PDict j) \<Rightarrow> map_of j ''next_cursor'' | _ \<Rightarrow> None)"

definition items_of :: "response \<Rightarrow> pyval list" where
  "items_of r = (case results_of r of Some xs \<Rightarrow> xs | None \<Rightarrow> [])"

definition cursor_of :: "response \<Rightarrow> pyval" where
  "cursor_of r = (case next_cursor_of r of Some c \<Rightarrow> c | None \<Rightarrow> PNone)"

definition more_page :: "response \<Rightarrow> bool" where
  "more_page r = (results_of r \<noteq> None \<and> has_more_of r
                  \<and> (case next_cursor_of r of Some c \<Rightarrow> truthy c | None \<Rightarrow> False))"

definition last_page :: "response \<Rightarrow> bool" where
  "last_page r = (results_of r \<noteq> None \<and> \<not> has_more_of r)"

definition is_page :: "pyval \<Rightarrow> bool" where
  "is_page item = (getitem item ''object'' = Inr (PStr ''page''))"

definition page_key :: "pyval \<Rightarrow> pyval" where
  "page_key item = (case getitem item ''id'' of Inr i \<Rightarrow> i | Inl e \<Rightarrow> PNone)"

definition with_title :: "pyval \<Rightarrow> pyval" where
  "with_title item = (case item of
       PDict d \<Rightarrow> (case extract_title item of
                     Inr t \<Rightarrow> PDict (AList.update ''title'' t d)
                   | Inl e \<Rightarrow> item)
     | _ \<Rightarrow> item)"

definition is_str :: "pyval \<Rightarrow> bool" where
  "is_str v = (case v of PStr s \<Rightarrow> True | _ \<Rightarrow> False)"

definition sound_item :: "pyval \<Rightarrow> bool" where
  "sound_item item = (case item of
       PDict d \<Rightarrow>
         (case map_of d ''object'' of
            None \<Rightarrow> False
          | Some obj \<Rightarrow>
              (if obj = PStr ''page''
               then (case map_of d ''id'' of Some i \<Rightarrow> is_str i | None \<Rightarrow> False)
                    \<and> (case extract_title item of Inr t \<Rightarrow> True | Inl e \<Rightarrow> False)
               else True))
     | _ \<Rightarrow> False)"

definition add_page :: "(pyval \<times> pyval) list \<Rightarrow> pyval \<Rightarrow> (pyval \<times> pyval) list" where
  "add_page pages item =
     (if is_page item then dict_setitem (page_key item) (with_title item) pages else pages)"

definition first_query :: "string \<Rightarrow> request" where
  "first_query database_id =
     \<lparr>http_method = ''POST'', endpoint = DatabaseQuery (PStr database_id),
      payload = Some (PDict [(''page_size'', PInt 100)])\<rparr>"

definition next_query :: "string \<Rightarrow> pyval \<Rightarrow> request" where
  "next_query database_id cursor =
     \<lparr>http_method = ''POST'', endpoint = DatabaseQuery (PStr database_id),
      payload = Some (PDict [(''page_size'', PInt 100), (''start_cursor'', cursor)])\<rparr>"

definition query_answer :: "pyval list \<Rightarrow> bool \<Rightarrow> pyval \<Rightarrow> response" where
  "query_answer items has_more cursor =
     \<lparr>status_code = 200, text_of = ''ok'',
      json = Some (PDict [(''object'', PStr ''list''), (''results'', PList items),
                          (''has_more'', PBool has_more), (''next_cursor'', cursor)])\<rparr>"

definition titled_page :: "string \<Rightarrow> string \<Rightarrow> pyval" where
  "titled_page i t =
     PDict [(''object'', PStr ''page''), (''id'', PStr i),
            (''properties'', PDict [(''Name'', PDict [(''title'',
                PList [PDict [(''text'', PDict [(''content'', PStr t)])]])])])]"

text \<open>A value that is not a \<open>NotionBlock\<close> instance.\<close>

definition no_instance :: "pyval \<Rightarrow> bool" where
  "no_instance v = (case v of PBlock b \<Rightarrow> False | _ \<Rightarrow> True)"
























section \<open>Decoding and encoding\<close>

text \<open>
  C9, with the keys a block needs. A property record or a block record that holds a
  string under
  \<open>"type"\<close> and a payload under the key that string names decodes, and encoding the
  decoded instance gives a record that maps \<open>"type"\<close> to the type name and the type name
  to the original payload, with no other key (for a block, also \<open>"object"\<close>). For a block
  record this needs the keys \<open>"object"\<close>, \<open>"id"\<close> and \<open>"has_children"\<close> as well.
\<close>

theorem decode_encode_round_trip:
  assumes ty: "map_of d ''type'' = Some (PStr tn)" and pl: "map_of d tn = Some c"
  shows "(\<exists>p e. NotionPageProperty_init name (PDict d) = Inr p
            \<and> property_to_dict p = PDict e
            \<and> map_of e ''type'' = Some (PStr tn) \<and> map_of e tn = Some c
            \<and> dom (map_of e) = {''type'', tn})
       \<and> (map_of d ''object'' = Some ob \<and> map_of d ''id'' = Some i
            \<and> map_of d ''has_children'' = Some h \<longrightarrow>
          (\<exists>b e. NotionBlock_init (PDict d) = Inr b
            \<and> block_to_dict b = PDict e
            \<and> map_of e ''object'' = Some ob
            \<and> map_of e ''type'' = Some (PStr tn) \<and> map_of e tn = Some c
            \<and> dom (map_of e) = {''object'', ''type'', tn}))"
proof (intro conjI impI)
  show "\<exists>p e. NotionPageProperty_init name (PDict d) = Inr p
            \<and> property_to_dict p = PDict e
            \<and> map_of e ''type'' = Some (PStr tn) \<and> map_of e tn = Some c
            \<and> dom (map_of e) = {''type'', tn}"
    using ty pl
    by (auto simp: NotionPageProperty_init_def getitem_def property_to_dict_def
                   update_conv' dom_update)
next
  assume "map_of d ''object'' = Some ob \<and> map_of d ''id'' = Some i
            \<and> map_of d ''has_children'' = Some h"
  then show "\<exists>b e. NotionBlock_init (PDict d) = Inr b
            \<and> block_to_dict b = PDict e
            \<and> map_of e ''object'' = Some ob
            \<and> map_of e ''type'' = Some (PStr tn) \<and> map_of e tn = Some c
            \<and> dom (map_of e) = {''object'', ''type'', tn}"
    using ty pl
    by (auto simp: NotionBlock_init_def getitem_def block_to_dict_def
                   update_conv' dom_update)
qed

theorem decode_encode_round_trip_witness:
  "(\<exists>p e. NotionPageProperty_init ''Status''
             (PDict [(''object'', PStr ''block''), (''id'', PStr ''x''),
                     (''type'', PStr ''divider''), (''divider'', PDict []),
                     (''has_children'', PBool False)]) = Inr p
          \<and> property_to_dict p = PDict e
          \<and> map_of e ''type'' = Some (PStr ''divider'') \<and> map_of e ''divider'' = Some (PDict []))
   \<and> (\<exists>b e. NotionBlock_init
             (PDict [(''object'', PStr ''block''), (''id'', PStr ''x''),
                     (''type'', PStr ''divider''), (''divider'', PDict []),
                     (''has_children'', PBool False)]) = Inr b
          \<and> block_to_dict b = PDict e
          \<and> map_of e ''object'' = Some (PStr ''block'')
          \<and> map_of e ''type'' = Some (PStr ''divider'') \<and> map_of e ''divider'' = Some (PDict []))"
  using decode_encode_round_trip
    [of "[(''object'', PStr ''block''), (''id'', PStr ''x''),
          (''type'', PStr ''divider''), (''divider'', PDict []),
          (''has_children'', PBool False)]" "''divider''" "PDict []" "''Status''"
        "PStr ''block''" "PStr ''x''" "PBool False"]
  by auto

text \<open>
  C9 as stated fails for blocks: a block record with only the type tag and the payload
  of that name does not decode.
\<close>

theorem block_decode_needs_more_keys:
  "map_of [(''type'', PStr ''divider''), (''divider'', PDict [])] ''type''
     = Some (PStr ''divider'')
   \<and> map_of [(''type'', PStr ''divider''), (''divider'', PDict [])] ''divider''
     = Some (PDict [])
   \<and> NotionBlock_init (PDict [(''type'', PStr ''divider''), (''divider'', PDict [])])
     = Inl (KeyError (PStr ''object''))"
  by (simp add: NotionBlock_init_def getitem_def)

text \<open>
  C10. A block record without \<open>"object"\<close>, without \<open>"id"\<close> or without \<open>"has_children"\<close>
  does not decode; when the type tag and the payload of that name are both there, the
  failure is the \<open>KeyError\<close> of the first of the three keys that is missing.
\<close>

theorem block_init_requires_object_id_has_children:
  assumes "map_of d ''object'' = None \<or> map_of d ''id'' = None
           \<or> map_of d ''has_children'' = None"
  shows "(\<exists>e. NotionBlock_init (PDict d) = Inl e)
       \<and> (map_of d ''type'' = Some (PStr tn) \<and> map_of d tn = Some c \<longrightarrow>
            NotionBlock_init (PDict d) =
              Inl (KeyError (PStr (if map_of d ''object'' = None then ''object''
                                   else if map_of d ''id'' = None then ''id''
                                   else ''has_children''))))"
  using assms
  by (auto simp: NotionBlock_init_def getitem_def split: option.splits pyval.splits)

theorem block_init_requires_object_id_has_children_witness:
  "NotionBlock_init
     (PDict [(''object'', PStr ''block''), (''id'', PStr ''x''),
             (''type'', PStr ''divider''), (''divider'', PDict [])])
   = Inl (KeyError (PStr ''has_children''))"
  using block_init_requires_object_id_has_children
    [of "[(''object'', PStr ''block''), (''id'', PStr ''x''),
          (''type'', PStr ''divider''), (''divider'', PDict [])]" "''divider''" "PDict []"]
  by simp

section \<open>The retry wrapper\<close>

lemma retry_step:
  "retry_loop (Suc n) func error args w =
     (case func args w of (r, a, w1) \<Rightarrow>
        if bad_attempt r then retry_loop n func (Some (projl r)) a (warned r w1)
        else (r, a, w1))"
  by (auto simp: bad_attempt_def warned_def sleep_def print_def split: prod.splits sum.splits)

lemma retry_done:
  "bad_attempt r \<Longrightarrow> retry_loop 0 func (Some (projl r)) a w = (r, a, w)"
  by (auto simp: bad_attempt_def split: sum.splits)

lemma retry_three:
  "retry_on_bad_response func = retry_loop (Suc (Suc (Suc 0))) func None"
  by (simp add: retry_on_bad_response_def numeral_3_eq_3)

text \<open>
  C5. The wrapper calls the function at most three times. It returns the outcome of
  the first attempt that is not a \<open>BadRequestException\<close>: a result, or an exception
  outside the family, which is not caught. After each bad attempt it prints the warning
  and sleeps 30 seconds; after the third bad attempt it raises that attempt's exception.
  With a counter on the function, the number of calls is between 1 and 3, and it is 3
  when the wrapper ends with an exception of the family.
\<close>

theorem retry_on_bad_response_three_attempts:
  "retry_on_bad_response func args w =
     (case func args w of (r1, a1, w1) \<Rightarrow>
        if \<not> bad_attempt r1 then (r1, a1, w1)
        else case func a1 (warned r1 w1) of (r2, a2, w2) \<Rightarrow>
          if \<not> bad_attempt r2 then (r2, a2, w2)
          else case func a2 (warned r2 w2) of (r3, a3, w3) \<Rightarrow>
            if \<not> bad_attempt r3 then (r3, a3, w3)
            else (r3, a3, warned r3 w3))
   \<and> (case retry_on_bad_response (counted func) (0, args) w of
         (r, na, w') \<Rightarrow> 1 \<le> fst na \<and> fst na \<le> 3 \<and> (bad_attempt r \<longrightarrow> fst na = 3))"
proof
  show "retry_on_bad_response func args w =
     (case func args w of (r1, a1, w1) \<Rightarrow>
        if \<not> bad_attempt r1 then (r1, a1, w1)
        else case func a1 (warned r1 w1) of (r2, a2, w2) \<Rightarrow>
          if \<not> bad_attempt r2 then (r2, a2, w2)
          else case func a2 (warned r2 w2) of (r3, a3, w3) \<Rightarrow>
            if \<not> bad_attempt r3 then (r3, a3, w3)
            else (r3, a3, warned r3 w3))"
    by (simp add: retry_three retry_step retry_done del: retry_loop.simps split: prod.splits)
  show "case retry_on_bad_response (counted func) (0, args) w of
         (r, na, w') \<Rightarrow> 1 \<le> fst na \<and> fst na \<le> 3 \<and> (bad_attempt r \<longrightarrow> fst na = 3)"
    by (simp add: retry_three retry_step retry_done counted_def del: retry_loop.simps
             split: prod.splits)
qed

text \<open>
  Three answers 429 and then a 200: the wrapped \<open>_get_block_children\<close> sends three
  requests, warns and sleeps three times, raises the rate-limit exception of the third
  answer and leaves the 200 unread.
\<close>

theorem retry_on_bad_response_three_attempts_witness:
  "get_block_children scripted (PStr ''p'')
      \<lparr>service = [rate_limited, rate_limited, rate_limited, children_ok], trace = []\<rparr>
   = (Inl (BadRequestException ExceededRateLimit
             ''Notion API exceeded rate limit: slow down'' 429),
      PStr ''p'',
      \<lparr>service = [children_ok],
       trace =
         [Request \<lparr>http_method = ''GET'', endpoint = BlockChildren (PStr ''p''),
                   payload = None\<rparr>,
          Print (''Received bad response (429): [Notion API exceeded rate limit: slow down].''
                 @ '' Retrying in 30 seconds...''),
          Sleep 30,
          Request \<lparr>http_method = ''GET'', endpoint = BlockChildren (PStr ''p''),
                   payload = None\<rparr>,
          Print (''Received bad response (429): [Notion API exceeded rate limit: slow down].''
                 @ '' Retrying in 30 seconds...''),
          Sleep 30,
          Request \<lparr>http_method = ''GET'', endpoint = BlockChildren (PStr ''p''),
                   payload = None\<rparr>,
          Print (''Received bad response (429): [Notion API exceeded rate limit: slow down].''
                 @ '' Retrying in 30 seconds...''),
          Sleep 30]\<rparr>)"
  using retry_on_bad_response_three_attempts
    [of "get_block_children_body scripted" "PStr ''p''"
        "\<lparr>service = [rate_limited, rate_limited, rate_limited, children_ok], trace = []\<rparr>"]
  by (simp add: get_block_children_def get_block_children_body_def requests_request_def
        check_response_def rate_limited_def bad_attempt_def is_bad_request_def warned_def
        bad_response_warning_def str_int_def str_nat.simps digit_char_def)

section \<open>Conversion of a block to its wire record\<close>

text \<open>
  C1 is not what the code does. A block whose content has both keys: the paragraph
  under \<open>"children"\<close> is converted, but the one accumulator serves both keys, so
  \<open>"children"\<close> and \<open>"cells"\<close> both end as the converted child followed by the cell.
  A block whose content has \<open>"cells"\<close> only: the guard looks at \<open>"children"\<close>, so the
  \<open>NotionBlock\<close> under \<open>"cells"\<close> stays an instance in the record.
\<close>

theorem convert_block_to_json_mixes_children_and_cells:
  "convert_block_to_json row_with_children =
     Inr (row_wire (PDict [(''cells'', PList [paragraph_wire, cell]),
                           (''children'', PList [paragraph_wire, cell])]),
          NotionBlock (PStr ''block'') (PStr ''r1'') ''table_row'' TABLE_ROW
            (PDict [(''cells'', PList [paragraph_wire, cell]),
                    (''children'', PList [paragraph_wire, cell])]) (PBool True))
   \<and> convert_block_to_json row_cells_only =
     Inr (row_wire (PDict [(''cells'', PList [PBlock paragraph_block])]), row_cells_only)"
  by (simp add: row_with_children_def row_cells_only_def paragraph_block_def
        paragraph_wire_def row_wire_def cell_def truthy_def block_to_dict_def Let_def)

text \<open>
  C2 is not what the code does. A block whose content is already wire-shaped, with a
  record under \<open>"children"\<close> and a cell under \<open>"cells"\<close>: the first call returns both
  keys holding the record and the cell, the second call on the block as the first left
  it returns both keys holding them twice.
\<close>

theorem convert_block_to_json_twice_differs:
  "convert_block_to_json (row_block (row_content [cell] [paragraph_wire])) =
     Inr (row_wire (row_content [paragraph_wire, cell] [paragraph_wire, cell]),
          row_block (row_content [paragraph_wire, cell] [paragraph_wire, cell]))
   \<and> convert_block_to_json (row_block (row_content [paragraph_wire, cell] [paragraph_wire, cell])) =
     Inr (row_wire (row_content [paragraph_wire, cell, paragraph_wire, cell]
                                [paragraph_wire, cell, paragraph_wire, cell]),
          row_block (row_content [paragraph_wire, cell, paragraph_wire, cell]
                                 [paragraph_wire, cell, paragraph_wire, cell]))"
  by (simp add: row_block_def row_content_def row_wire_def paragraph_wire_def cell_def
        truthy_def block_to_dict_def Let_def)

section \<open>Attaching a link\<close>

text \<open>
  C3 is not what the code does when \<open>replace_only_matched_text\<close> is true. The page has
  one bulleted list item with the runs "See " and "Click here"; the search text is
  "Click here". The update that is sent keeps both runs, and the link of the matched
  run in it is still \<open>None\<close>: the copy that is sent was taken before the link was set.
\<close>

theorem set_link_keeping_runs_sends_no_link:
  "set_bulleted_list_item_link scripted ''Click here'' ''page'' ''http://x'' True
        \<lparr>service = [children_of_page, updated], trace = []\<rparr>
   = (Inr (),
      \<lparr>service = [],
       trace =
         [Request \<lparr>http_method = ''GET'', endpoint = BlockChildren (PStr ''page''),
                   payload = None\<rparr>,
          Request \<lparr>http_method = ''PATCH'', endpoint = Block (PStr ''b1''),
                   payload = Some (PDict
                     [(''object'', PStr ''block''), (''type'', PStr ''bulleted_list_item''),
                      (''bulleted_list_item'',
                       PDict [(''text'', PList
                         [PDict [(''plain_text'', PStr ''See ''),
                                 (''text'', PDict [(''content'', PStr ''See ''),
                                                   (''link'', PNone)])],
                          PDict [(''plain_text'', PStr ''Click here''),
                                 (''text'', PDict [(''content'', PStr ''Click here''),
                                                   (''link'', PNone)])]])])])\<rparr>]\<rparr>)"
  by (simp add: set_bulleted_list_item_link_def get_block_children_def update_block_def
        retry_on_bad_response_def numeral_3_eq_3 get_block_children_body_def
        update_block_body_def requests_request_def check_response_def response_json_def
        getitem_def get_method_def setitem_def iterate_def children_of_page_def updated_def
        bullet_record_def NotionBlock_init_def determine_block_type_def lower_def
        lower_char_def Let_def run_see_def run_click_def set_link_def truthy_def
        block_to_dict_def)

text \<open>
  With \<open>replace_only_matched_text\<close> false the same page gets the update of the docstring:
  the text of the block is the matched run alone, with the link.
\<close>

lemma set_link_replacing_runs_sends_link:
  "set_bulleted_list_item_link scripted ''Click here'' ''page'' ''http://x'' False
        \<lparr>service = [children_of_page, updated], trace = []\<rparr>
   = (Inr (),
      \<lparr>service = [],
       trace =
         [Request \<lparr>http_method = ''GET'', endpoint = BlockChildren (PStr ''page''),
                   payload = None\<rparr>,
          Request \<lparr>http_method = ''PATCH'', endpoint = Block (PStr ''b1''),
                   payload = Some (PDict
                     [(''object'', PStr ''block''), (''type'', PStr ''bulleted_list_item''),
                      (''bulleted_list_item'',
                       PDict [(''text'', PList
                         [PDict [(''plain_text'', PStr ''Click here''),
                                 (''text'', PDict [(''content'', PStr ''Click here''),
                                    (''link'', PDict [(''url'', PStr ''http://x'')])])]])])])\<rparr>]\<rparr>)"
  by (simp add: set_bulleted_list_item_link_def get_block_children_def update_block_def
        retry_on_bad_response_def numeral_3_eq_3 get_block_children_body_def
        update_block_body_def requests_request_def check_response_def response_json_def
        getitem_def get_method_def setitem_def iterate_def children_of_page_def updated_def
        bullet_record_def NotionBlock_init_def determine_block_type_def lower_def
        lower_char_def Let_def run_see_def run_click_def set_link_def truthy_def
        block_to_dict_def)

section \<open>Status checks of the database query\<close>

text \<open>The taxonomy of \<open>_check_response\<close>, which the decorated methods call.\<close>

lemma check_response_taxonomy:
  "check_response r =
     (if status_code r = 200 then Inr ()
      else Inl (BadRequestException
                  (if status_code r = 429 then ExceededRateLimit
                   else if status_code r = 400 then BadPayload
                   else if status_code r = 401 \<or> status_code r = 403 then Unauthorized
                   else if status_code r \<ge> 500 then ServerSide
                   else BadRequest)
                  (message (projl (check_response r))) (status_code r)))"
  by (simp add: check_response_def)

text \<open>
  C6 is not what the code does for \<open>_get_database_pages\<close>: it neither checks the status
  nor runs under the retry wrapper. A query answered 429 with an error body is sent
  once; what is raised is the \<open>KeyError\<close> of the missing \<open>"results"\<close>, with no warning
  and no pause. A query answered 500 with a well-formed body is taken as a success.
\<close>

theorem get_database_pages_ignores_status:
  "get_database_pages scripted ''db'' \<lparr>service = [rate_limited_query], trace = []\<rparr>
     = Some (Inl (KeyError (PStr ''results'')),
             \<lparr>service = [],
              trace = [Request \<lparr>http_method = ''POST'',
                                endpoint = DatabaseQuery (PStr ''db''),
                                payload = Some (PDict [(''page_size'', PInt 100)])\<rparr>]\<rparr>)
   \<and> get_database_pages scripted ''db'' \<lparr>service = [server_error_query], trace = []\<rparr>
     = Some (Inr [],
             \<lparr>service = [],
              trace = [Request \<lparr>http_method = ''POST'',
                                endpoint = DatabaseQuery (PStr ''db''),
                                payload = Some (PDict [(''page_size'', PInt 100)])\<rparr>]\<rparr>)"
  by (simp add: get_database_pages_def database_pages_loop.simps requests_request_def
        rate_limited_query_def server_error_query_def response_json_def getitem_def
        get_method_def iterate_def truthy_def query_request_def query_payload_def)

section \<open>Title extraction\<close>

lemma path_in_properties:
  "map_of d ''properties'' = Some (PDict p) \<Longrightarrow>
   subscripts (PDict d) (title_path name) =
     (case map_of p name of None \<Rightarrow> Inl (KeyError (PStr name)) | Some v \<Rightarrow> title_of_property v)"
  by (simp add: title_path_def title_of_property_def getitem_def split: option.splits)

text \<open>
  C8. The title is read under the BOM-prefixed key first. When that path gives a
  value, it is the title; when it raises a \<open>KeyError\<close>, the title is whatever the path
  under \<open>"Name"\<close> gives. For a record with a dictionary of properties: a title under the
  BOM-prefixed key is extracted; without that key, the title under \<open>"Name"\<close> is; with
  neither key the extraction raises \<open>KeyError("Name")\<close>. A failed extraction on a page
  item ends the loop over the results with that exception.
\<close>

theorem extract_title_bom_then_name:
  "(subscripts item (title_path bom_name) = Inr t \<longrightarrow> extract_title item = Inr t)
   \<and> (subscripts item (title_path bom_name) = Inl (KeyError k) \<longrightarrow>
        extract_title item = subscripts item (title_path ''Name''))
   \<and> (map_of d ''properties'' = Some (PDict p) \<longrightarrow>
        (map_of p bom_name = Some v \<and> title_of_property v = Inr t \<longrightarrow>
           extract_title (PDict d) = Inr t)
      \<and> (map_of p bom_name = None \<and> map_of p ''Name'' = Some v \<longrightarrow>
           extract_title (PDict d) = title_of_property v)
      \<and> (map_of p bom_name = None \<and> map_of p ''Name'' = None \<longrightarrow>
           extract_title (PDict d) = Inl (KeyError (PStr ''Name''))))
   \<and> (getitem item ''object'' = Inr (PStr ''page'') \<and> extract_title item = Inl e \<longrightarrow>
        collect_pages (item # rest) pages = Inl e)"
proof (intro conjI impI)
  show "extract_title item = Inr t" if "subscripts item (title_path bom_name) = Inr t"
    using that by (simp add: extract_title_def)
  show "extract_title item = subscripts item (title_path ''Name'')"
    if "subscripts item (title_path bom_name) = Inl (KeyError k)"
    using that by (simp add: extract_title_def)
  show "extract_title (PDict d) = Inr t"
    if "map_of d ''properties'' = Some (PDict p)" "map_of p bom_name = Some v \<and> title_of_property v = Inr t"
    using that by (simp add: extract_title_def path_in_properties)
  show "extract_title (PDict d) = title_of_property v"
    if "map_of d ''properties'' = Some (PDict p)" "map_of p bom_name = None \<and> map_of p ''Name'' = Some v"
    using that by (simp add: extract_title_def path_in_properties)
  show "extract_title (PDict d) = Inl (KeyError (PStr ''Name''))"
    if "map_of d ''properties'' = Some (PDict p)" "map_of p bom_name = None \<and> map_of p ''Name'' = None"
    using that by (simp add: extract_title_def path_in_properties)
  show "collect_pages (item # rest) pages = Inl e"
    if "getitem item ''object'' = Inr (PStr ''page'') \<and> extract_title item = Inl e"
    using that by simp
qed

theorem extract_title_bom_then_name_witness:
  "extract_title (PDict (page_record ''p1'' [(bom_name, title_property ''Spec A'')])) = Inr (PStr ''Spec A'')
   \<and> extract_title (PDict (page_record ''p2'' [(''Name'', title_property ''Spec B'')])) = Inr (PStr ''Spec B'')
   \<and> extract_title (PDict (page_record ''p3'' [(''Status'', PDict [])])) = Inl (KeyError (PStr ''Name''))
   \<and> collect_pages [PDict (page_record ''p3'' [(''Status'', PDict [])])] [] = Inl (KeyError (PStr ''Name''))"
  using extract_title_bom_then_name
    [of "PDict (page_record ''p1'' [(bom_name, title_property ''Spec A'')])" "PStr ''Spec A''"
        "PNone" "page_record ''p1'' [(bom_name, title_property ''Spec A'')]"
        "[(bom_name, title_property ''Spec A'')]" "title_property ''Spec A''"]
    extract_title_bom_then_name
    [of _ _ _ "page_record ''p2'' [(''Name'', title_property ''Spec B'')]"
        "[(''Name'', title_property ''Spec B'')]" "title_property ''Spec B''"]
    extract_title_bom_then_name
    [of "PDict (page_record ''p3'' [(''Status'', PDict [])])" _ _ "page_record ''p3'' [(''Status'', PDict [])]"
        "[(''Status'', PDict [])]" _ "KeyError (PStr ''Name'')" "[]" "[]"]
  by (simp add: page_record_def title_property_def title_of_property_def bom_name_def getitem_def getitem0_def)

section \<open>All pages of a database\<close>

lemma query_request_first: "query_request db PNone = first_query db"
  by (simp add: query_request_def query_payload_def first_query_def truthy_def)

lemma query_request_next: "truthy c \<Longrightarrow> query_request db c = next_query db c"
  by (simp add: query_request_def query_payload_def next_query_def)

lemma key_eq_str: "key_eq x (PStr s) = (x = PStr s)"
  by (cases x) (simp_all add: key_eq_def)

lemma map_of_dict_setitem:
  "map_of (dict_setitem (PStr s) v ps) = (map_of ps)(PStr s \<mapsto> v)"
  by (induction ps) (auto simp: key_eq_str)

lemma keys_dict_setitem:
  "map fst (dict_setitem (PStr s) v ps) =
     (if PStr s \<in> set (map fst ps) then map fst ps else map fst ps @ [PStr s])"
  by (induction ps) (auto simp: key_eq_str)

lemma distinct_dict_setitem:
  "distinct (map fst ps) \<Longrightarrow> distinct (map fst (dict_setitem (PStr s) v ps))"
  by (simp add: keys_dict_setitem)

lemma is_strD: "is_str v \<Longrightarrow> \<exists>s. v = PStr s"
  by (cases v) (simp_all add: is_str_def)

lemma sound_page_key:
  "sound_item item \<Longrightarrow> is_page item \<Longrightarrow> \<exists>s. page_key item = PStr s"
  by (auto simp: sound_item_def is_page_def page_key_def getitem_def
           split: pyval.splits option.splits if_splits dest: is_strD)

lemma collect_pages_sound:
  "list_all sound_item items \<Longrightarrow> collect_pages items pages = Inr (foldl add_page pages items)"
proof (induction items arbitrary: pages)
  case Nil
  then show ?case by simp
next
  case (Cons item items)
  then have s: "sound_item item" and rest: "list_all sound_item items" by simp_all
  from s obtain d obj where d: "item = PDict d" "map_of d ''object'' = Some obj"
    by (auto simp: sound_item_def split: pyval.splits option.splits)
  show ?case
  proof (cases "obj = PStr ''page''")
    case False
    with d Cons.IH[OF rest] show ?thesis
      by (simp add: getitem_def add_page_def is_page_def)
  next
    case True
    with s d obtain i t where it: "map_of d ''id'' = Some (PStr i)" "extract_title item = Inr t"
      by (auto simp: sound_item_def split: option.splits sum.splits dest: is_strD)
    with True d Cons.IH[OF rest] show ?thesis
      by (simp add: getitem_def setitem_def add_page_def is_page_def hashable_def
            page_key_def with_title_def update_conv')
  qed
qed

lemma add_page_sound:
  assumes "sound_item item"
  shows "map_of (add_page pages item) =
           (if is_page item then (map_of pages)(page_key item \<mapsto> with_title item)
            else map_of pages)"
    and "distinct (map fst pages) \<Longrightarrow> distinct (map fst (add_page pages item))"
proof -
  show "map_of (add_page pages item) =
           (if is_page item then (map_of pages)(page_key item \<mapsto> with_title item)
            else map_of pages)"
  proof (cases "is_page item")
    case True
    from sound_page_key[OF assms True] obtain i where "page_key item = PStr i" by blast
    with True show ?thesis by (simp add: add_page_def map_of_dict_setitem)
  next
    case False
    then show ?thesis by (simp add: add_page_def)
  qed
  show "distinct (map fst (add_page pages item))" if "distinct (map fst pages)"
  proof (cases "is_page item")
    case True
    from sound_page_key[OF assms True] obtain i where "page_key item = PStr i" by blast
    with True that show ?thesis by (simp add: add_page_def distinct_dict_setitem)
  next
    case False
    with that show ?thesis by (simp add: add_page_def)
  qed
qed

lemma foldl_add_page_distinct:
  "list_all sound_item items \<Longrightarrow> distinct (map fst pages) \<Longrightarrow>
   distinct (map fst (foldl add_page pages items))"
  by (induction items arbitrary: pages) (simp_all add: add_page_sound(2))

lemma foldl_add_page_dom:
  "list_all sound_item items \<Longrightarrow>
   dom (map_of (foldl add_page pages items))
     = dom (map_of pages) \<union> set (map page_key (filter is_page items))"
proof (induction items arbitrary: pages)
  case Nil
  then show ?case by simp
next
  case (Cons item items)
  then have s: "sound_item item" and rest: "list_all sound_item items" by simp_all
  have "dom (map_of (foldl add_page (add_page pages item) items))
        = dom (map_of (add_page pages item)) \<union> set (map page_key (filter is_page items))"
    using Cons.IH[OF rest] .
  also have "dom (map_of (add_page pages item))
        = dom (map_of pages) \<union> set (map page_key (filter is_page [item]))"
    by (auto simp: add_page_sound(1)[OF s])
  finally show ?case by auto
qed

lemma foldl_add_page_values:
  "list_all sound_item items \<Longrightarrow> map_of (foldl add_page pages items) k = Some v \<Longrightarrow>
   map_of pages k = Some v
   \<or> (\<exists>item \<in> set (filter is_page items). page_key item = k \<and> v = with_title item)"
proof (induction items arbitrary: pages)
  case Nil
  then show ?case by simp
next
  case (Cons item items)
  then have s: "sound_item item" and rest: "list_all sound_item items" by simp_all
  from Cons.prems(2) have "map_of (foldl add_page (add_page pages item) items) k = Some v"
    by simp
  from Cons.IH[OF rest this] consider
      (old) "map_of (add_page pages item) k = Some v"
    | (new) "\<exists>x \<in> set (filter is_page items). page_key x = k \<and> v = with_title x"
    by blast
  then show ?case
  proof cases
    case old
    then show ?thesis
      by (auto simp: add_page_sound(1)[OF s] split: if_splits)
  next
    case new
    then show ?thesis by auto
  qed
qed

lemma response_parts:
  assumes "results_of r = Some items"
  shows "\<exists>j. response_json r = Inr (PDict j) \<and> getitem (PDict j) ''results'' = Inr (PList items)
           \<and> iterate (PList items) = Inr items
           \<and> (\<exists>hm. get_method (PDict j) ''has_more'' = Inr hm \<and> truthy hm = has_more_of r)
           \<and> getitem (PDict j) ''next_cursor'' =
               (case next_cursor_of r of None \<Rightarrow> Inl (KeyError (PStr ''next_cursor''))
                                        | Some c \<Rightarrow> Inr c)"
  using assms
  by (auto simp: results_of_def response_json_def getitem_def iterate_def get_method_def
        has_more_of_def next_cursor_of_def truthy_def split: option.splits pyval.splits)

text \<open>
  One round of the loop, for any service: one query is sent; with a truthy \<open>has_more\<close>
  the loop goes on with the \<open>next_cursor\<close> of the answer, otherwise it returns.
\<close>

lemma database_pages_loop_round:
  assumes "net (query_request db cursor) (service w) = (Inr r, s)"
      and "results_of r = Some items"
      and "list_all sound_item items"
  shows "database_pages_loop net db pages cursor w =
           (if has_more_of r then
              (case next_cursor_of r of
                 None \<Rightarrow> Some (Inl (KeyError (PStr ''next_cursor'')),
                               w\<lparr>service := s, trace := trace w @ [Request (query_request db cursor)]\<rparr>)
               | Some c \<Rightarrow>
                   database_pages_loop net db (foldl add_page pages items) c
                     (w\<lparr>service := s, trace := trace w @ [Request (query_request db cursor)]\<rparr>))
            else Some (Inr (foldl add_page pages items),
                       w\<lparr>service := s, trace := trace w @ [Request (query_request db cursor)]\<rparr>))"
proof -
  from response_parts[OF assms(2)] obtain j hm where
    j: "response_json r = Inr (PDict j)" "getitem (PDict j) ''results'' = Inr (PList items)"
       "iterate (PList items) = Inr items"
       "get_method (PDict j) ''has_more'' = Inr hm" "truthy hm = has_more_of r"
       "getitem (PDict j) ''next_cursor'' =
               (case next_cursor_of r of None \<Rightarrow> Inl (KeyError (PStr ''next_cursor''))
                                        | Some c \<Rightarrow> Inr c)"
    by blast
  show ?thesis
    apply (subst database_pages_loop.simps)
    using assms(1) j collect_pages_sound[OF assms(3), of pages]
    by (simp add: requests_request_def split: option.splits)
qed

lemma scripted_loop:
  "list_all more_page rs \<Longrightarrow> last_page rl \<Longrightarrow>
   list_all sound_item (concat (map items_of (rs @ [rl]))) \<Longrightarrow>
   database_pages_loop scripted db pages cursor \<lparr>service = rs @ rl # rest, trace = tr\<rparr> =
     Some (Inr (foldl add_page pages (concat (map items_of (rs @ [rl])))),
           \<lparr>service = rest,
            trace = tr @ map Request (query_request db cursor
                                       # map (\<lambda>r. next_query db (cursor_of r)) rs)\<rparr>)"
proof (induction rs arbitrary: pages cursor tr)
  case Nil
  then obtain items where it: "results_of rl = Some items" and nm: "\<not> has_more_of rl"
    by (auto simp: last_page_def)
  from Nil it have s: "list_all sound_item items" by (simp add: items_of_def)
  show ?case
    using database_pages_loop_round[of scripted db cursor "\<lparr>service = rl # rest, trace = tr\<rparr>"
            rl rest items pages] it nm s
    by (simp add: items_of_def)
next
  case (Cons r rs)
  then obtain items c where it: "results_of r = Some items" and hm: "has_more_of r"
      and c: "next_cursor_of r = Some c" "truthy c"
    by (auto simp: more_page_def split: option.splits)
  have ir: "items_of r = items" "cursor_of r = c"
    using it c by (simp_all add: items_of_def cursor_of_def)
  from Cons.prems have s: "list_all sound_item items"
      and s': "list_all sound_item (concat (map items_of (rs @ [rl])))"
      and m: "list_all more_page rs"
    by (simp_all add: ir)
  have "database_pages_loop scripted db pages cursor \<lparr>service = (r # rs) @ rl # rest, trace = tr\<rparr>
        = database_pages_loop scripted db (foldl add_page pages items) c
            \<lparr>service = rs @ rl # rest, trace = tr @ [Request (query_request db cursor)]\<rparr>"
    using database_pages_loop_round[of scripted db cursor
            "\<lparr>service = (r # rs) @ rl # rest, trace = tr\<rparr>" r "rs @ rl # rest" items pages]
          it hm c s
    by simp
  also have "\<dots> = Some (Inr (foldl add_page (foldl add_page pages items)
                               (concat (map items_of (rs @ [rl])))),
           \<lparr>service = rest,
            trace = (tr @ [Request (query_request db cursor)])
                    @ map Request (query_request db c
                                       # map (\<lambda>r. next_query db (cursor_of r)) rs)\<rparr>)"
    using Cons.IH[OF m Cons.prems(2) s'] .
  finally show ?case
    using c by (simp add: ir query_request_next)
qed

text \<open>
  C7. The mocked service answers with the pages \<open>rs\<close>, each with more to come, and
  then with the last page \<open>rl\<close>; all items are sound. Then \<open>_get_database_pages\<close>
  returns; it has sent one query per page, the first without a cursor and each later
  one with the \<open>next_cursor\<close> of the answer before it, and nothing else. The result
  is a mapping (no key twice) whose keys are the ids of the page items of all answers,
  and each value is a page item with that id, with its title stored under \<open>"title"\<close>.
\<close>

theorem get_database_pages_follows_cursor:
  assumes "list_all more_page rs" and "last_page rl"
      and "list_all sound_item (concat (map items_of (rs @ [rl])))"
  shows "\<exists>pages.
           get_database_pages scripted db \<lparr>service = rs @ rl # rest, trace = tr\<rparr> =
             Some (Inr pages,
                   \<lparr>service = rest,
                    trace = tr @ map Request (first_query db
                                               # map (\<lambda>r. next_query db (cursor_of r)) rs)\<rparr>)
         \<and> distinct (map fst pages)
         \<and> dom (map_of pages)
             = set (map page_key (filter is_page (concat (map items_of (rs @ [rl])))))
         \<and> (\<forall>k v. map_of pages k = Some v \<longrightarrow>
                (\<exists>item \<in> set (filter is_page (concat (map items_of (rs @ [rl])))).
                    page_key item = k \<and> v = with_title item))"
proof -
  let ?items = "concat (map items_of (rs @ [rl]))"
  let ?pages = "foldl add_page [] ?items"
  have run: "get_database_pages scripted db \<lparr>service = rs @ rl # rest, trace = tr\<rparr> =
             Some (Inr ?pages,
                   \<lparr>service = rest,
                    trace = tr @ map Request (first_query db
                                               # map (\<lambda>r. next_query db (cursor_of r)) rs)\<rparr>)"
    using scripted_loop[OF assms, of db "[]" PNone rest tr]
    by (simp add: get_database_pages_def query_request_first)
  have d: "distinct (map fst ?pages)"
    using foldl_add_page_distinct[OF assms(3), of "[]"] by simp
  have k: "dom (map_of ?pages) = set (map page_key (filter is_page ?items))"
    by (simp only: foldl_add_page_dom[OF assms(3), of "[]"] map_of.simps dom_empty Un_empty_left)
  have v: "\<forall>k v. map_of ?pages k = Some v \<longrightarrow>
                (\<exists>item \<in> set (filter is_page ?items). page_key item = k \<and> v = with_title item)"
    using foldl_add_page_values[OF assms(3), of "[]"] by fastforce
  from run d k v show ?thesis by blast
qed

lemma titled_page_sound:
  "sound_item (titled_page i t)" "is_page (titled_page i t)"
  "page_key (titled_page i t) = PStr i"
  by (simp_all add: titled_page_def sound_item_def is_page_def page_key_def is_str_def
        extract_title_def title_path_def bom_name_def getitem_def getitem0_def)

lemma query_answer_parts:
  "results_of (query_answer items has_more cursor) = Some items"
  "has_more_of (query_answer items has_more cursor) = has_more"
  "next_cursor_of (query_answer items has_more cursor) = Some cursor"
  by (simp_all add: query_answer_def results_of_def has_more_of_def next_cursor_of_def truthy_def)

theorem get_database_pages_follows_cursor_witness:
  "\<exists>pages.
     get_database_pages scripted ''db''
        \<lparr>service = [query_answer [titled_page ''a'' ''Spec A''] True (PStr ''c1''),
                    query_answer [titled_page ''b'' ''Spec B''] True (PStr ''c2''),
                    query_answer [titled_page ''c'' ''Spec C''] False PNone],
         trace = []\<rparr>
     = Some (Inr pages,
             \<lparr>service = [],
              trace = [Request (first_query ''db''),
                       Request (next_query ''db'' (PStr ''c1'')),
                       Request (next_query ''db'' (PStr ''c2''))]\<rparr>)
     \<and> dom (map_of pages) = {PStr ''a'', PStr ''b'', PStr ''c''}"
  using get_database_pages_follows_cursor
    [of "[query_answer [titled_page ''a'' ''Spec A''] True (PStr ''c1''),
          query_answer [titled_page ''b'' ''Spec B''] True (PStr ''c2'')]"
        "query_answer [titled_page ''c'' ''Spec C''] False PNone" "''db''" "[]" "[]"]
  by (auto simp: more_page_def last_page_def items_of_def cursor_of_def query_answer_parts
        titled_page_sound truthy_def)

section \<open>Conversion of a block without cells\<close>

lemma convert_result_is_record:
  "convert_block_to_json b = Inr r \<Longrightarrow> no_instance (fst r)"
  by (auto simp: block_to_dict_def no_instance_def Let_def
           split: pyval.splits if_splits prod.splits option.splits)

lemma convert_children_records:
  "convert_children xs acc = (None, acc') \<Longrightarrow> list_all no_instance acc \<Longrightarrow>
   list_all no_instance acc'"
proof (induction xs arbitrary: acc)
  case Nil
  then show ?case by simp
next
  case (Cons x xs)
  show ?case
  proof (cases x)
    case (PBlock b)
    with Cons.prems(1) obtain r where r: "convert_block_to_json b = Inr r"
        and rest: "convert_children xs (acc @ [fst r]) = (None, acc')"
      by (auto split: sum.splits)
    from convert_result_is_record[OF r] Cons.prems(2)
    have "list_all no_instance (acc @ [fst r])" by simp
    from Cons.IH[OF rest this] show ?thesis .
  qed (use Cons in \<open>auto simp: no_instance_def\<close>)
qed

lemma convert_children_pass:
  "list_all no_instance xs \<Longrightarrow> convert_children xs acc = (None, acc @ xs)"
  by (induction xs arbitrary: acc) (auto simp: no_instance_def split: pyval.splits)

text \<open>The conversion never raises a \<open>KeyError\<close>, so its \<open>suppress\<close> only skips a missing key.\<close>

lemma never_key_error:
  "convert_block_to_json b \<noteq> Inl (KeyError k)"
  "fst (convert_key d key acc) \<noteq> Some (KeyError k)"
  "fst (convert_children xs acc2) \<noteq> Some (KeyError k)"
proof (induction b and d key acc and xs acc2
       rule: convert_block_to_json_convert_key_convert_children.induct)
  case (1 block)
  show ?case
  proof (cases "b_content block")
    case (PDict d)
    show ?thesis
    proof (cases "truthy (case map_of d ''children'' of None \<Rightarrow> PNone | Some x \<Rightarrow> x)")
      case False
      with PDict show ?thesis by simp
    next
      case True
      obtain e1 a1 c1 where k1: "convert_key d ''children'' [] = (e1, a1, c1)"
        by (cases "convert_key d ''children'' []") auto
      show ?thesis
      proof (cases e1)
        case (Some e)
        from "1.IH"(1)[OF PDict True] k1 Some have "e \<noteq> KeyError k"
          by (simp del: convert_key.simps)
        with PDict True k1 Some show ?thesis by (simp del: convert_key.simps)
      next
        case None
        obtain e2 a2 c2 where k2: "convert_key d ''cells'' c1 = (e2, a2, c2)"
          by (cases "convert_key d ''cells'' c1") auto
        have "fst (convert_key d ''cells'' c1) \<noteq> Some (KeyError k)"
          by (rule "1.IH"(2)[OF PDict True _ _ None, of "(a1, c1)" a1]) (simp_all add: k1 del: convert_key.simps)
        with k2 have "e2 \<noteq> Some (KeyError k)" by (simp del: convert_key.simps)
        with PDict True k1 None k2 show ?thesis
          by (cases e2) (simp_all add: Let_def del: convert_key.simps)
      qed
    qed
  qed simp_all
next
  case (2 d key children)
  show ?case
  proof (cases "map_of d key")
    case None
    then show ?thesis by simp
  next
    case (Some v)
    show ?thesis
    proof (cases v)
      case (PList xs)
      with Some show ?thesis
        by (auto split: prod.splits option.splits exn.splits)
    qed (use Some in simp_all)
  qed
next
  case (3 children)
  then show ?case by simp
next
  case (4 child rest children)
  show ?case
  proof (cases child)
    case (PBlock b)
    show ?thesis
    proof (cases "convert_block_to_json b")
      case (Inl e)
      with "4.IH"(7)[OF PBlock] PBlock show ?thesis by simp
    next
      case (Inr r)
      with "4.IH"(8)[OF PBlock Inr] PBlock show ?thesis by simp
    qed
  next
    case PNone with 4 show ?thesis by simp
  next
    case PBool with 4 show ?thesis by simp
  next
    case PInt with 4 show ?thesis by simp
  next
    case PStr with 4 show ?thesis by simp
  next
    case PList with 4 show ?thesis by simp
  next
    case PDict with 4 show ?thesis by simp
  qed
qed


lemma update_twice: "AList.update k v (AList.update k v d) = AList.update k v d"
  by (induction d) auto

text \<open>
  Without a \<open>"cells"\<close> key the accumulator serves one key only, and a second conversion
  of the block as the first left it returns the same record.
\<close>

lemma convert_twice_without_cells:
  assumes c: "b_content b = PDict d" and nc: "map_of d ''cells'' = None"
      and ch: "map_of d ''children'' = Some (PList xs)"
      and first: "convert_block_to_json b = Inr (j, b1)"
  shows "convert_block_to_json b1 = Inr (j, b1)"
proof (cases "xs = []")
  case True
  with c nc ch first have "b1 = b" "j = block_to_dict b"
    by (auto simp: truthy_def)
  with first show ?thesis by simp
next
  case False
  obtain e cs where cc: "convert_children xs [] = (e, cs)"
    by (cases "convert_children xs []") auto
  have e: "e = None"
  proof (cases e)
    case (Some x)
    with never_key_error(3)[of xs "[]"] cc have "\<forall>k. x \<noteq> KeyError k" by auto
    with first c nc ch False cc Some show ?thesis
      by (cases x) (simp_all add: truthy_def)
  qed simp
  let ?d1 = "AList.update ''children'' (PList cs) d"
  from first c nc ch False cc e
  have b1: "b1 = NotionBlock (b_object b) (b_id b) (b_type_name b) (b_type b)
                   (PDict ?d1) (b_has_children b)"
    and j: "j = block_to_dict b1"
    by (auto simp: truthy_def Let_def)
  from convert_children_records[of xs "[]" cs] cc e have rec: "list_all no_instance cs"
    by simp
  have pass: "convert_children cs [] = (None, cs)"
    using convert_children_pass[OF rec, of "[]"] by simp
  have look: "map_of ?d1 ''children'' = Some (PList cs)" "map_of ?d1 ''cells'' = None"
    using nc by (simp_all add: update_conv')
  have "convert_block_to_json b1 = Inr (block_to_dict b1, b1)"
    unfolding b1
    using look pass
    by (simp add: Let_def update_twice del: AList.update.simps)
  with j show ?thesis by simp
qed

section \<open>First match, or not found\<close>


















end
